theory Spec2Isabelle
  imports Main
begin

section \<open>Values and exceptions of the Python program\<close>

text \<open>
  \<^verbatim>\<open>roleChaining.py\<close> works on the dictionaries that boto3 returns: policy documents are
  JSON texts already parsed into Python values. A dictionary is an association list
  that is read with \<open>map_of\<close>; numbers play no part in the program and are integers here.
\<close>

datatype json =
    JNull
  | JBool bool
  | JNum int
  | JStr string
  | JList "json list"
  | JObj "(string \<times> json) list"

text \<open>
  The exceptions the program can meet. \<open>ClientError\<close> carries the provider's error code,
  \<open>SystemExit\<close> the exit status of \<^verbatim>\<open>sys.exit\<close>.
\<close>

datatype py_error =
    AttributeError
  | TypeError
  | KeyError
  | ClientError string
  | SystemExit nat

text \<open>\<^verbatim>\<open>x.get(key, default)\<close>: only a dictionary has the method.\<close>

fun py_get :: "json \<Rightarrow> string \<Rightarrow> json \<Rightarrow> py_error + json" where
  "py_get (JObj kvs) k d = Inr (case map_of kvs k of None \<Rightarrow> d | Some v \<Rightarrow> v)"
| "py_get _ k d = Inl AttributeError"

text \<open>
  \<^verbatim>\<open>for x in v\<close>: a list yields its elements, a dictionary its keys, a string its
  characters as one-character strings; nothing else is iterable.
\<close>

fun py_iter :: "json \<Rightarrow> py_error + json list" where
  "py_iter (JList xs) = Inr xs"
| "py_iter (JObj kvs) = Inr (map (\<lambda>kv. JStr (fst kv)) kvs)"
| "py_iter (JStr s) = Inr (map (\<lambda>c. JStr [c]) s)"
| "py_iter _ = Inl TypeError"

text \<open>The substring test of \<^verbatim>\<open>s in t\<close> on two strings.\<close>

fun str_prefix :: "string \<Rightarrow> string \<Rightarrow> bool" where
  "str_prefix [] t = True"
| "str_prefix (c # s) [] = False"
| "str_prefix (c # s) (d # t) = (c = d \<and> str_prefix s t)"

fun str_contains :: "string \<Rightarrow> string \<Rightarrow> bool" where
  "str_contains s [] = (s = [])"
| "str_contains s (d # t) = (str_prefix s (d # t) \<or> str_contains s t)"

text \<open>
  \<^verbatim>\<open>s in v\<close> for a string \<open>s\<close>: membership by equality in a list (a string equals only a
  string), key membership in a dictionary, the substring test in a string, and a
  \<^verbatim>\<open>TypeError\<close> on \<^verbatim>\<open>None\<close>, a number or a boolean.
\<close>

fun py_in :: "string \<Rightarrow> json \<Rightarrow> py_error + bool" where
  "py_in s (JList xs) = Inr (JStr s \<in> set xs)"
| "py_in s (JObj kvs) = Inr (map_of kvs s \<noteq> None)"
| "py_in s (JStr t) = Inr (str_contains s t)"
| "py_in s _ = Inl TypeError"

section \<open>The trust policy evaluator: \<^verbatim>\<open>get_role_permission\<close>\<close>

text \<open>
  \<^verbatim>\<open>
  def get_role_permission(policy_document, user_arn):
      for statement in policy_document.get('Statement', []):
          if statement.get('Effect') == 'Allow' and 'Principal' in statement:
              principal_arns = statement['Principal'].get('AWS', [])
              if isinstance(principal_arns, str):
                  principal_arns = [principal_arns]
              if user_arn in principal_arns:
                  return True
      return False
  \<close>
  \<open>trust_statement\<close> is one turn of the loop: \<open>Inr True\<close> when it reaches
  \<^verbatim>\<open>return True\<close>, \<open>Inr False\<close> when the loop goes on, \<open>Inl e\<close> when it raises.
\<close>

fun principal_list :: "json \<Rightarrow> json" where
  "principal_list (JStr s) = JList [JStr s]"
| "principal_list v = v"

fun trust_statement :: "json \<Rightarrow> string \<Rightarrow> py_error + bool" where
  "trust_statement (JObj kvs) user_arn =
     (if map_of kvs ''Effect'' = Some (JStr ''Allow'') then
        (case map_of kvs ''Principal'' of
           None \<Rightarrow> Inr False
         | Some principal_field \<Rightarrow>
             (case py_get principal_field ''AWS'' (JList []) of
                Inl e \<Rightarrow> Inl e
              | Inr principal_arns \<Rightarrow> py_in user_arn (principal_list principal_arns)))
      else Inr False)"
| "trust_statement _ user_arn = Inl AttributeError"

fun get_role_permission_loop :: "json list \<Rightarrow> string \<Rightarrow> py_error + bool" where
  "get_role_permission_loop [] user_arn = Inr False"
| "get_role_permission_loop (statement # rest) user_arn =
     (case trust_statement statement user_arn of
        Inl e \<Rightarrow> Inl e
      | Inr found \<Rightarrow> if found then Inr True else get_role_permission_loop rest user_arn)"

definition get_role_permission :: "json \<Rightarrow> string \<Rightarrow> py_error + bool" where
  "get_role_permission policy_document user_arn =
     (case py_get policy_document ''Statement'' (JList []) of
        Inl e \<Rightarrow> Inl e
      | Inr v \<Rightarrow>
          (case py_iter v of
             Inl e \<Rightarrow> Inl e
           | Inr statements \<Rightarrow> get_role_permission_loop statements user_arn))"

section \<open>The permission policy evaluator: \<^verbatim>\<open>policy_allows_assume_role\<close>\<close>

text \<open>
  \<^verbatim>\<open>
  def policy_allows_assume_role(policy_document):
      for statement in policy_document.get('Statement', []):
          if statement.get('Effect') == 'Allow' and 'sts:AssumeRole' in statement.get('Action', []):
              return True
      return False
  \<close>
  The \<^verbatim>\<open>and\<close> evaluates its right operand only for an Allow statement.
\<close>

fun allow_statement :: "json \<Rightarrow> py_error + bool" where
  "allow_statement (JObj kvs) =
     (if map_of kvs ''Effect'' = Some (JStr ''Allow'') then
        py_in ''sts:AssumeRole'' (case map_of kvs ''Action'' of None \<Rightarrow> JList [] | Some a \<Rightarrow> a)
      else Inr False)"
| "allow_statement _ = Inl AttributeError"

fun policy_allows_assume_role_loop :: "json list \<Rightarrow> py_error + bool" where
  "policy_allows_assume_role_loop [] = Inr False"
| "policy_allows_assume_role_loop (statement # rest) =
     (case allow_statement statement of
        Inl e \<Rightarrow> Inl e
      | Inr found \<Rightarrow> if found then Inr True else policy_allows_assume_role_loop rest)"

definition policy_allows_assume_role :: "json \<Rightarrow> py_error + bool" where
  "policy_allows_assume_role policy_document =
     (case py_get policy_document ''Statement'' (JList []) of
        Inl e \<Rightarrow> Inl e
      | Inr v \<Rightarrow>
          (case py_iter v of
             Inl e \<Rightarrow> Inl e
           | Inr statements \<Rightarrow> policy_allows_assume_role_loop statements))"

section \<open>The account and the session\<close>

text \<open>
  What the boto3 calls of the program return, as one record of functions: the session.
  A call either returns its value or raises. The paginators give the list of their pages;
  \<open>iam_get_role_policy\<close> gives the \<^verbatim>\<open>PolicyDocument\<close> of its response, \<open>iam_get_policy\<close> the
  \<^verbatim>\<open>DefaultVersionId\<close> and \<open>iam_get_policy_version\<close> the \<^verbatim>\<open>Document\<close>; \<open>sts_assume_role\<close>
  takes the role's ARN and the session name and gives the \<^verbatim>\<open>Credentials\<close>;
  \<open>write_credentials\<close> stands for reading and rewriting \<^verbatim>\<open>~/.aws/credentials\<close>.
\<close>

record credentials =
  AccessKeyId :: string
  SecretAccessKey :: string
  SessionToken :: string
  Expiration :: string

record iam_role =
  role_RoleName :: string
  role_Arn :: string
  role_AssumeRolePolicyDocument :: json

record aws =
  list_roles :: "py_error + iam_role list list"
  list_role_policies :: "string \<Rightarrow> py_error + json list"
  list_attached_role_policies :: "string \<Rightarrow> py_error + json list"
  iam_get_role_policy :: "string \<Rightarrow> json \<Rightarrow> py_error + json"
  iam_get_policy :: "json \<Rightarrow> py_error + json"
  iam_get_policy_version :: "json \<Rightarrow> json \<Rightarrow> py_error + json"
  sts_assume_role :: "string \<Rightarrow> string \<Rightarrow> py_error + credentials"
  write_credentials :: "string \<Rightarrow> credentials \<Rightarrow> py_error + unit"

text \<open>
  What the program does that can be seen from outside: the lines it prints and the
  assume-role calls it makes, in order.
\<close>

datatype event =
    PolicyAllows string json string
  | AssumeRoleCall string string
  | SavedProfile string
  | ErrorAssuming string py_error
  | AssumedCredentials string
  | NoRolesFound
  | RolesThatAllowChaining "string list"

section \<open>The permissive roles: \<^verbatim>\<open>get_permisive_roles\<close>\<close>

text \<open>
  \<^verbatim>\<open>
  for page in client.get_paginator('list_roles').paginate():
      roles.extend(page['Roles'])
  permisive_roles = [
      {'RoleName': role['RoleName'], 'RoleArn': role['Arn']}
      for role in roles
      if get_role_permission(role['AssumeRolePolicyDocument'], user_arn)
  ]
  return permisive_roles
  \<close>
  Only a \<^verbatim>\<open>ClientError\<close> is caught, and ends the program with status 1; any other
  exception of the evaluator leaves the function.
\<close>

record permisive_role =
  RoleName :: string
  RoleArn :: string

fun permisive_filter :: "iam_role list \<Rightarrow> string \<Rightarrow> py_error + permisive_role list" where
  "permisive_filter [] user_arn = Inr []"
| "permisive_filter (role # roles) user_arn =
     (case get_role_permission (role_AssumeRolePolicyDocument role) user_arn of
        Inl e \<Rightarrow> Inl e
      | Inr trusted \<Rightarrow>
          (case permisive_filter roles user_arn of
             Inl e \<Rightarrow> Inl e
           | Inr rest \<Rightarrow>
               Inr (if trusted
                    then \<lparr>RoleName = role_RoleName role, RoleArn = role_Arn role\<rparr> # rest
                    else rest)))"

fun exit_on_client_error :: "py_error \<Rightarrow> py_error" where
  "exit_on_client_error (ClientError c) = SystemExit 1"
| "exit_on_client_error e = e"

definition get_permisive_roles :: "aws \<Rightarrow> string \<Rightarrow> py_error + permisive_role list" where
  "get_permisive_roles session user_arn =
     (case list_roles session of
        Inl e \<Rightarrow> Inl (exit_on_client_error e)
      | Inr pages \<Rightarrow>
          (case permisive_filter (concat pages) user_arn of
             Inl e \<Rightarrow> Inl (exit_on_client_error e)
           | Inr permisive_roles \<Rightarrow> Inr permisive_roles))"

section \<open>The policies of a role: \<^verbatim>\<open>check_policies\<close> and its fetchers\<close>

text \<open>\<^verbatim>\<open>x[key]\<close> with a string key: a dictionary without the key raises \<^verbatim>\<open>KeyError\<close>.\<close>

fun py_getitem :: "json \<Rightarrow> string \<Rightarrow> py_error + json" where
  "py_getitem (JObj kvs) k = (case map_of kvs k of None \<Rightarrow> Inl KeyError | Some v \<Rightarrow> Inr v)"
| "py_getitem _ k = Inl TypeError"

definition get_role_policy :: "aws \<Rightarrow> string \<Rightarrow> json \<Rightarrow> py_error + json" where
  "get_role_policy session role_name policy_name = iam_get_role_policy session role_name policy_name"

definition get_managed_policy :: "aws \<Rightarrow> string \<Rightarrow> json \<Rightarrow> py_error + json" where
  "get_managed_policy session role_name policy =
     (case py_getitem policy ''PolicyArn'' of
        Inl e \<Rightarrow> Inl e
      | Inr policy_arn \<Rightarrow>
          (case iam_get_policy session policy_arn of
             Inl e \<Rightarrow> Inl e
           | Inr policy_version \<Rightarrow> iam_get_policy_version session policy_arn policy_version))"

text \<open>
  \<^verbatim>\<open>page.get('PolicyNames', []) + page.get('AttachedPolicies', [])\<close>, as the inner loop
  walks it: two lists are joined, two strings too (and walked by character), anything
  else raises at the \<^verbatim>\<open>+\<close> or at the start of the loop.
\<close>

definition page_policies :: "json \<Rightarrow> py_error + json list" where
  "page_policies page =
     (case py_get page ''PolicyNames'' (JList []) of
        Inl e \<Rightarrow> Inl e
      | Inr names \<Rightarrow>
          (case py_get page ''AttachedPolicies'' (JList []) of
             Inl e \<Rightarrow> Inl e
           | Inr attached \<Rightarrow>
               (case (names, attached) of
                  (JList xs, JList ys) \<Rightarrow> Inr (xs @ ys)
                | (JStr a, JStr b) \<Rightarrow> py_iter (JStr (a @ b))
                | _ \<Rightarrow> Inl TypeError)))"

text \<open>
  \<^verbatim>\<open>
  policy_type = 'inline' if 'PolicyName' in policy else 'managed'
  policy_name = policy if isinstance(policy, str) else policy['PolicyName']
  cprint(f"{policy_type.capitalize()} policy '{policy_name}' in role '{role_name}' allows ...")
  \<close>
\<close>

definition policy_report :: "json \<Rightarrow> string \<Rightarrow> py_error + event" where
  "policy_report policy role_name =
     (case py_in ''PolicyName'' policy of
        Inl e \<Rightarrow> Inl e
      | Inr named \<Rightarrow>
          (case (case policy of JStr s \<Rightarrow> Inr (JStr s) | _ \<Rightarrow> py_getitem policy ''PolicyName'') of
             Inl e \<Rightarrow> Inl e
           | Inr policy_name \<Rightarrow>
               Inr (PolicyAllows (if named then ''Inline'' else ''Managed'') policy_name role_name)))"

text \<open>
  \<^verbatim>\<open>
  def check_policies(session, role_name, role_arn, paginator, policy_fetcher):
      role_allows_assume_role = False
      for page in paginator.paginate(RoleName=role_name):
          for policy in page.get('PolicyNames', []) + page.get('AttachedPolicies', []):
              policy_document = policy_fetcher(session, role_name, policy)
              if policy_allows_assume_role(policy_document):
                  ...
                  role_allows_assume_role = True
      return role_allows_assume_role
  \<close>
  The two loops carry the flag and the lines printed so far.
\<close>

fun check_policies_page ::
  "aws \<Rightarrow> string \<Rightarrow> (aws \<Rightarrow> string \<Rightarrow> json \<Rightarrow> py_error + json) \<Rightarrow> json list
     \<Rightarrow> bool \<times> event list \<Rightarrow> py_error + bool \<times> event list" where
  "check_policies_page session role_name policy_fetcher [] st = Inr st"
| "check_policies_page session role_name policy_fetcher (policy # policies) st =
     (case policy_fetcher session role_name policy of
        Inl e \<Rightarrow> Inl e
      | Inr policy_document \<Rightarrow>
          (case policy_allows_assume_role policy_document of
             Inl e \<Rightarrow> Inl e
           | Inr allows \<Rightarrow>
               if allows then
                 (case policy_report policy role_name of
                    Inl e \<Rightarrow> Inl e
                  | Inr line \<Rightarrow>
                      check_policies_page session role_name policy_fetcher policies
                        (True, snd st @ [line]))
               else check_policies_page session role_name policy_fetcher policies st))"

fun check_policies_pages ::
  "aws \<Rightarrow> string \<Rightarrow> (aws \<Rightarrow> string \<Rightarrow> json \<Rightarrow> py_error + json) \<Rightarrow> json list
     \<Rightarrow> bool \<times> event list \<Rightarrow> py_error + bool \<times> event list" where
  "check_policies_pages session role_name policy_fetcher [] st = Inr st"
| "check_policies_pages session role_name policy_fetcher (page # pages) st =
     (case page_policies page of
        Inl e \<Rightarrow> Inl e
      | Inr policies \<Rightarrow>
          (case check_policies_page session role_name policy_fetcher policies st of
             Inl e \<Rightarrow> Inl e
           | Inr st' \<Rightarrow> check_policies_pages session role_name policy_fetcher pages st'))"

definition check_policies ::
  "aws \<Rightarrow> string \<Rightarrow> string \<Rightarrow> (aws \<Rightarrow> string \<Rightarrow> py_error + json list)
     \<Rightarrow> (aws \<Rightarrow> string \<Rightarrow> json \<Rightarrow> py_error + json) \<Rightarrow> py_error + bool \<times> event list" where
  "check_policies session role_name role_arn paginator policy_fetcher =
     (case paginator session role_name of
        Inl e \<Rightarrow> Inl e
      | Inr pages \<Rightarrow> check_policies_pages session role_name policy_fetcher pages (False, []))"

section \<open>The hop: \<^verbatim>\<open>assume_user_role\<close>\<close>

text \<open>
  The function returns the credentials in discovery mode, the profile name after saving
  them in automated mode, and \<^verbatim>\<open>None\<close> after printing the error when anything in the
  \<^verbatim>\<open>try\<close> block raises an \<^verbatim>\<open>Exception\<close> (which \<^verbatim>\<open>SystemExit\<close> is not).
\<close>

datatype chain_creds = RoleCreds credentials | ProfileName string

fun is_exception :: "py_error \<Rightarrow> bool" where
  "is_exception (SystemExit n) = False"
| "is_exception e = True"

definition assume_user_role ::
  "aws \<Rightarrow> string \<Rightarrow> string \<Rightarrow> string \<Rightarrow> string \<Rightarrow> py_error + chain_creds option \<times> event list" where
  "assume_user_role session role_name role_arn mode return_profile_name =
     (case sts_assume_role session role_arn role_name of
        Inl e \<Rightarrow>
          if is_exception e
          then Inr (None, [AssumeRoleCall role_arn role_name, ErrorAssuming role_name e])
          else Inl e
      | Inr role_creds \<Rightarrow>
          if mode = ''automated'' then
            (case write_credentials session return_profile_name role_creds of
               Inl e \<Rightarrow>
                 if is_exception e
                 then Inr (None, [AssumeRoleCall role_arn role_name, ErrorAssuming role_name e])
                 else Inl e
             | Inr u \<Rightarrow>
                 Inr (Some (ProfileName return_profile_name),
                      [AssumeRoleCall role_arn role_name, SavedProfile return_profile_name]))
          else Inr (Some (RoleCreds role_creds), [AssumeRoleCall role_arn role_name]))"

section \<open>Discovery: \<^verbatim>\<open>role_chaning_check\<close>\<close>

text \<open>
  \<^verbatim>\<open>
  for role in permisive_roles:
      ...
      if check_policies(..., 'list_role_policies', get_role_policy) or \
         check_policies(..., 'list_attached_role_policies', get_managed_policy):
          role_chain_creds = assume_user_role(session, role_name, role_arn, mode, return_profile_name)
          if role_chain_creds:
              assumable_roles.append(role_name)
              role_chaning_found = True
              cprint(f"Assumed role credentials from '{role_name}' role:", "green")
          return role_chain_creds
  if not role_chaining_found:
      cprint("No roles found that allow chaining.", "red")
  else:
      cprint(f"Roles that allow chaining: {', '.join(assumable_roles)}", "green")
  \<close>
  The \<^verbatim>\<open>or\<close> runs its second operand only when the first is false. The \<^verbatim>\<open>return\<close> of the
  loop body is inside the outer \<^verbatim>\<open>if\<close>, behind both outcomes of the hop. The loop carries
  \<^verbatim>\<open>role_chaining_found\<close> and \<^verbatim>\<open>assumable_roles\<close>; without a \<^verbatim>\<open>return\<close> the function gives
  \<^verbatim>\<open>None\<close>.
\<close>

fun truthy :: "chain_creds option \<Rightarrow> bool" where
  "truthy None = False"
| "truthy (Some (RoleCreds c)) = True"
| "truthy (Some (ProfileName p)) = (p \<noteq> [])"

definition role_allows_chaining :: "aws \<Rightarrow> string \<Rightarrow> string \<Rightarrow> py_error + bool \<times> event list" where
  "role_allows_chaining session role_name role_arn =
     (case check_policies session role_name role_arn list_role_policies get_role_policy of
        Inl e \<Rightarrow> Inl e
      | Inr (inline_allows, printed) \<Rightarrow>
          if inline_allows then Inr (True, printed)
          else
            (case check_policies session role_name role_arn list_attached_role_policies
                    get_managed_policy of
               Inl e \<Rightarrow> Inl e
             | Inr (managed_allows, printed') \<Rightarrow> Inr (managed_allows, printed @ printed')))"

fun role_chaning_check_loop ::
  "aws \<Rightarrow> permisive_role list \<Rightarrow> string \<Rightarrow> string \<Rightarrow> bool \<Rightarrow> string list
     \<Rightarrow> py_error + chain_creds option \<times> event list" where
  "role_chaning_check_loop session [] mode return_profile_name role_chaining_found assumable_roles =
     Inr (None, [if \<not> role_chaining_found then NoRolesFound
                 else RolesThatAllowChaining assumable_roles])"
| "role_chaning_check_loop session (role # roles) mode return_profile_name role_chaining_found
       assumable_roles =
     (case role_allows_chaining session (RoleName role) (RoleArn role) of
        Inl e \<Rightarrow> Inl e
      | Inr (allows, printed) \<Rightarrow>
          if allows then
            (case assume_user_role session (RoleName role) (RoleArn role) mode return_profile_name of
               Inl e \<Rightarrow> Inl e
             | Inr (role_chain_creds, hop) \<Rightarrow>
                 Inr (role_chain_creds,
                      printed @ hop @
                      (if truthy role_chain_creds then [AssumedCredentials (RoleName role)] else [])))
          else
            (case role_chaning_check_loop session roles mode return_profile_name
                    role_chaining_found assumable_roles of
               Inl e \<Rightarrow> Inl e
             | Inr (result, later) \<Rightarrow> Inr (result, printed @ later)))"

definition role_chaning_check ::
  "aws \<Rightarrow> permisive_role list \<Rightarrow> string \<Rightarrow> string \<Rightarrow> py_error + chain_creds option \<times> event list" where
  "role_chaning_check session permisive_roles mode return_profile_name =
     role_chaning_check_loop session permisive_roles mode return_profile_name False []"

text \<open>
  The discovery branch of \<^verbatim>\<open>main\<close>, from the caller's ARN on:
  \<^verbatim>\<open>
  permisive_roles = get_permisive_roles(session, user_arn)
  role_chain_creds = role_chaning_check(session, permisive_roles, args.mode, return_profile_name)
  \<close>
\<close>

definition main_discovery ::
  "aws \<Rightarrow> string \<Rightarrow> string \<Rightarrow> py_error + chain_creds option \<times> event list" where
  "main_discovery session user_arn return_profile_name =
     (case get_permisive_roles session user_arn of
        Inl e \<Rightarrow> Inl e
      | Inr permisive_roles \<Rightarrow>
          role_chaning_check session permisive_roles ''discovery'' return_profile_name)"

section \<open>Notions the properties are stated with\<close>

text \<open>
  A role's trust policy trusts an identity when the trust evaluator answers \<^verbatim>\<open>True\<close>.
\<close>

definition trusts :: "iam_role \<Rightarrow> string \<Rightarrow> bool" where
  "trusts role user_arn =
     (get_role_permission (role_AssumeRolePolicyDocument role) user_arn = Inr True)"

text \<open>
  The policies a paginator lists for a role, page after page, and what it means that one
  of them grants the assume-role action: its document can be fetched and the permission
  evaluator answers \<^verbatim>\<open>True\<close> on it.
\<close>

definition listed_policies :: "py_error + json list \<Rightarrow> json list" where
  "listed_policies listing =
     (case listing of
        Inl e \<Rightarrow> []
      | Inr pages \<Rightarrow>
          concat (map (\<lambda>page. case page_policies page of Inl e \<Rightarrow> [] | Inr ps \<Rightarrow> ps) pages))"

definition policy_grants ::
  "aws \<Rightarrow> string \<Rightarrow> (aws \<Rightarrow> string \<Rightarrow> json \<Rightarrow> py_error + json) \<Rightarrow> json \<Rightarrow> bool" where
  "policy_grants session role_name policy_fetcher policy =
     (case policy_fetcher session role_name policy of
        Inl e \<Rightarrow> False
      | Inr policy_document \<Rightarrow> policy_allows_assume_role policy_document = Inr True)"

definition some_policy_grants :: "aws \<Rightarrow> string \<Rightarrow> bool" where
  "some_policy_grants session role_name =
     (list_ex (policy_grants session role_name get_role_policy)
        (listed_policies (list_role_policies session role_name))
      \<or> list_ex (policy_grants session role_name get_managed_policy)
        (listed_policies (list_attached_role_policies session role_name)))"

text \<open>The assume-role calls among the events of a run.\<close>

fun is_assume_call :: "event \<Rightarrow> bool" where
  "is_assume_call (AssumeRoleCall role_arn role_name) = True"
| "is_assume_call ev = False"

definition assume_calls :: "event list \<Rightarrow> event list" where
  "assume_calls events = filter is_assume_call events"

text \<open>
  Rewriting a trust policy: \<open>rewrite_principal_aws f\<close> replaces the value \<open>v\<close> under the
  \<^verbatim>\<open>AWS\<close> key of every statement's \<^verbatim>\<open>Principal\<close> map by \<open>f v\<close> and leaves the rest of the
  document as it is.
\<close>

fun map_entry :: "string \<Rightarrow> (json \<Rightarrow> json) \<Rightarrow> json \<Rightarrow> json" where
  "map_entry k f (JObj kvs) =
     JObj (map (\<lambda>kv. (fst kv, if fst kv = k then f (snd kv) else snd kv)) kvs)"
| "map_entry k f v = v"

fun map_items :: "(json \<Rightarrow> json) \<Rightarrow> json \<Rightarrow> json" where
  "map_items f (JList xs) = JList (map f xs)"
| "map_items f v = v"

definition rewrite_principal_aws :: "(json \<Rightarrow> json) \<Rightarrow> json \<Rightarrow> json" where
  "rewrite_principal_aws f policy_document =
     map_entry ''Statement'' (map_items (map_entry ''Principal'' (map_entry ''AWS'' f)))
       policy_document"

text \<open>
  A statement that names no principal under the \<^verbatim>\<open>AWS\<close> key: it is a map, and when
  its effect is Allow its \<^verbatim>\<open>Principal\<close>, if any, is a map without that key.
\<close>

fun principal_outside_aws :: "json \<Rightarrow> bool" where
  "principal_outside_aws (JObj kvs) =
     (if map_of kvs ''Effect'' = Some (JStr ''Allow'') then
        (case map_of kvs ''Principal'' of
           None \<Rightarrow> True
         | Some (JObj principal_map) \<Rightarrow> map_of principal_map ''AWS'' = None
         | Some other \<Rightarrow> False)
      else True)"
| "principal_outside_aws other = False"

text \<open>
  The action set of a statement, read exactly: an absent \<^verbatim>\<open>Action\<close> is the empty set, a
  list is its elements, a single string is a one-element set. No set is given to a
  statement that is not a map, to an \<^verbatim>\<open>Action\<close> of another type, or to a single string
  that has the assume-role identifier inside a longer name. A statement grants the
  action exactly when it is an Allow statement whose action set holds the identifier.
\<close>

fun exact_actions :: "json \<Rightarrow> json list option" where
  "exact_actions (JObj kvs) =
     (case map_of kvs ''Action'' of
        None \<Rightarrow> Some []
      | Some (JList actions) \<Rightarrow> Some actions
      | Some (JStr a) \<Rightarrow>
          if str_contains ''sts:AssumeRole'' a \<and> a \<noteq> ''sts:AssumeRole'' then None
          else Some [JStr a]
      | Some other \<Rightarrow> None)"
| "exact_actions other = None"

fun grants_exactly :: "json \<Rightarrow> bool" where
  "grants_exactly (JObj kvs) =
     (map_of kvs ''Effect'' = Some (JStr ''Allow'')
      \<and> (case exact_actions (JObj kvs) of
           None \<Rightarrow> False
         | Some actions \<Rightarrow> JStr ''sts:AssumeRole'' \<in> set actions))"
| "grants_exactly other = False"

section \<open>Example documents and accounts\<close>

definition user_U :: string where
  "user_U = ''arn:aws:iam::111122223333:user/U''"

definition trusts_U :: json where
  "trusts_U = JObj [(''Version'', JStr ''2012-10-17''),
     (''Statement'', JList [JObj [(''Effect'', JStr ''Allow''),
        (''Principal'', JObj [(''AWS'', JStr ''arn:aws:iam::111122223333:user/U'')]),
        (''Action'', JStr ''sts:AssumeRole'')]])]"

definition grants_assume_role :: json where
  "grants_assume_role = JObj [(''Version'', JStr ''2012-10-17''),
     (''Statement'', JList [JObj [(''Effect'', JStr ''Allow''),
        (''Action'', JList [JStr ''sts:AssumeRole'']),
        (''Resource'', JStr ''*'')]])]"

definition wildcard_policy :: json where
  "wildcard_policy = JObj [(''Version'', JStr ''2012-10-17''),
     (''Statement'', JList [JObj [(''Effect'', JStr ''Allow''),
        (''Action'', JStr ''*''), (''Resource'', JStr ''*'')]])]"

definition saml_policy :: json where
  "saml_policy = JObj [(''Version'', JStr ''2012-10-17''),
     (''Statement'', JList [JObj [(''Effect'', JStr ''Allow''),
        (''Action'', JStr ''sts:AssumeRoleWithSAML''), (''Resource'', JStr ''*'')]])]"

definition anyone_trust_policy :: json where
  "anyone_trust_policy = JObj [(''Version'', JStr ''2012-10-17''),
     (''Statement'', JList [JObj [(''Effect'', JStr ''Allow''),
        (''Principal'', JStr ''*''), (''Action'', JStr ''sts:AssumeRole'')]])]"

definition service_trust_statement :: json where
  "service_trust_statement = JObj [(''Effect'', JStr ''Allow''),
     (''Principal'', JObj [(''Service'', JStr ''ec2.amazonaws.com''),
        (''Federated'', JList [JStr ''arn:aws:iam::111122223333:user/U''])]),
     (''Action'', JStr ''sts:AssumeRole'')]"

text \<open>
  An account with two roles, \<open>A\<close> and \<open>B\<close>. Both trust the user \<open>U\<close>; each has one inline
  policy and one attached managed policy, and every policy document grants
  \<^verbatim>\<open>sts:AssumeRole\<close>. With \<open>deny_A\<close> the provider refuses the assume-role call for \<open>A\<close>
  and accepts every other one.
\<close>

definition role_A :: iam_role where
  "role_A = \<lparr>role_RoleName = ''A'', role_Arn = ''arn:aws:iam::111122223333:role/A'',
     role_AssumeRolePolicyDocument = trusts_U\<rparr>"

definition role_B :: iam_role where
  "role_B = \<lparr>role_RoleName = ''B'', role_Arn = ''arn:aws:iam::111122223333:role/B'',
     role_AssumeRolePolicyDocument = trusts_U\<rparr>"

definition creds_for :: "string \<Rightarrow> credentials" where
  "creds_for role_name =
     \<lparr>AccessKeyId = ''ASIA-'' @ role_name, SecretAccessKey = ''secret-'' @ role_name,
      SessionToken = ''token-'' @ role_name, Expiration = ''2024-01-01T00:00:00+00:00''\<rparr>"

definition managed_ref :: json where
  "managed_ref = JObj [(''PolicyName'', JStr ''ManagedChain''),
     (''PolicyArn'', JStr ''arn:aws:iam::111122223333:policy/ManagedChain'')]"

definition account :: "bool \<Rightarrow> aws" where
  "account deny_A =
     \<lparr>list_roles = Inr [[role_A, role_B]],
      list_role_policies = (\<lambda>role_name. Inr [JObj [(''PolicyNames'', JList [JStr ''Chain''])]]),
      list_attached_role_policies =
        (\<lambda>role_name. Inr [JObj [(''AttachedPolicies'', JList [managed_ref])]]),
      iam_get_role_policy = (\<lambda>role_name policy_name. Inr grants_assume_role),
      iam_get_policy = (\<lambda>policy_arn. Inr (JStr ''v1'')),
      iam_get_policy_version = (\<lambda>policy_arn version. Inr grants_assume_role),
      sts_assume_role =
        (\<lambda>role_arn session_name.
           if deny_A \<and> session_name = ''A'' then Inl (ClientError ''AccessDenied'')
           else Inr (creds_for session_name)),
      write_credentials = (\<lambda>profile creds. Inr ())\<rparr>"

lemmas example_defs = user_U_def trusts_U_def grants_assume_role_def role_A_def role_B_def
  creds_for_def managed_ref_def account_def

lemmas run_defs = main_discovery_def get_permisive_roles_def role_chaning_check_def
  role_allows_chaining_def check_policies_def page_policies_def policy_report_def
  get_role_policy_def get_managed_policy_def assume_user_role_def
  get_role_permission_def policy_allows_assume_role_def

section \<open>The substring test\<close>

lemma str_prefix_iff: "str_prefix s t \<longleftrightarrow> (\<exists>q. t = s @ q)"
  by (induction s t rule: str_prefix.induct) auto

lemma str_contains_iff: "str_contains s t \<longleftrightarrow> (\<exists>p q. t = p @ s @ q)"
proof (induction t)
  case Nil
  show ?case by simp
next
  case (Cons d t)
  show ?case
  proof
    assume "str_contains s (d # t)"
    then consider "str_prefix s (d # t)" | "str_contains s t" by auto
    then show "\<exists>p q. d # t = p @ s @ q"
    proof cases
      case 1
      then obtain q where "d # t = s @ q" by (auto simp: str_prefix_iff)
      then have "d # t = [] @ s @ q" by simp
      then show ?thesis by blast
    next
      case 2
      then obtain p q where "t = p @ s @ q" using Cons.IH by auto
      then have "d # t = (d # p) @ s @ q" by simp
      then show ?thesis by blast
    qed
  next
    assume "\<exists>p q. d # t = p @ s @ q"
    then obtain p q where pq: "d # t = p @ s @ q" by auto
    show "str_contains s (d # t)"
    proof (cases p)
      case Nil
      with pq have "str_prefix s (d # t)" by (auto simp: str_prefix_iff)
      then show ?thesis by simp
    next
      case (Cons a p')
      with pq have "t = p' @ s @ q" by simp
      then have "str_contains s t" using Cons.IH by blast
      then show ?thesis by simp
    qed
  qed
qed

lemma str_contains_refl: "str_contains s s"
  by (simp add: str_contains_iff) (metis append_Nil append_Nil2)

section \<open>The permission policy evaluator\<close>

lemma policy_without_statements_allows_nothing:
  "map_of doc ''Statement'' = None \<or> map_of doc ''Statement'' = Some (JList [])
     \<Longrightarrow> policy_allows_assume_role (JObj doc) = Inr False"
  by (auto simp: policy_allows_assume_role_def)

lemma allow_statement_exact:
  "exact_actions s \<noteq> None \<Longrightarrow> allow_statement s = Inr (grants_exactly s)"
  using str_contains_refl [of "''sts:AssumeRole''"]
  by (cases s) (auto split: option.splits json.splits if_splits)

lemma policy_allows_loop_exact:
  "list_all (\<lambda>s. exact_actions s \<noteq> None) ss \<Longrightarrow>
     policy_allows_assume_role_loop ss = Inr (list_ex grants_exactly ss)"
  by (induction ss) (simp_all add: allow_statement_exact)

lemma policy_allows_loop_append:
  "policy_allows_assume_role_loop earlier = Inr b \<Longrightarrow>
     policy_allows_assume_role_loop (earlier @ rest) =
       (if b then Inr True else policy_allows_assume_role_loop rest)"
  by (induction earlier arbitrary: b) (auto split: sum.splits if_splits)

text \<open>
  Claim C4, as the program has it. The evaluator expands no wildcard at all. On a policy
  document whose \<^verbatim>\<open>Statement\<close> is a list of statements with exactly read action sets, it
  answers \<^verbatim>\<open>True\<close> if and only if some Allow statement's action set holds the literal
  identifier \<^verbatim>\<open>sts:AssumeRole\<close>. An Allow statement whose action is the full wildcard
  \<^verbatim>\<open>*\<close> holds no such element and does not make the answer \<^verbatim>\<open>True\<close>.
\<close>

theorem permission_evaluator_matches_literal_only:
  assumes "map_of doc ''Statement'' = Some (JList statements)"
    and "list_all (\<lambda>s. exact_actions s \<noteq> None) statements"
  shows "policy_allows_assume_role (JObj doc) = Inr (list_ex grants_exactly statements)"
  using assms by (simp add: policy_allows_assume_role_def policy_allows_loop_exact)

text \<open>
  The theorem of C4 at a document of two Allow statements, the first with the action
  list \<^verbatim>\<open>["*"]\<close>, the second with a list that holds the literal: the answer is \<^verbatim>\<open>True\<close>,
  by the second statement.
\<close>

theorem permission_evaluator_matches_literal_only_witness:
  "list_all (\<lambda>s. exact_actions s \<noteq> None)
     [JObj [(''Effect'', JStr ''Allow''), (''Action'', JList [JStr ''*''])],
      JObj [(''Effect'', JStr ''Allow''),
            (''Action'', JList [JStr ''s3:GetObject'', JStr ''sts:AssumeRole''])]]
   \<and> policy_allows_assume_role (JObj [(''Statement'', JList
        [JObj [(''Effect'', JStr ''Allow''), (''Action'', JList [JStr ''*''])],
         JObj [(''Effect'', JStr ''Allow''),
               (''Action'', JList [JStr ''s3:GetObject'', JStr ''sts:AssumeRole''])]])])
      = Inr True"
proof -
  let ?ss = "[JObj [(''Effect'', JStr ''Allow''), (''Action'', JList [JStr ''*''])],
      JObj [(''Effect'', JStr ''Allow''),
            (''Action'', JList [JStr ''s3:GetObject'', JStr ''sts:AssumeRole''])]]"
  have h1: "map_of [(''Statement'', JList ?ss)] ''Statement'' = Some (JList ?ss)" by simp
  have h2: "list_all (\<lambda>s. exact_actions s \<noteq> None) ?ss" by simp
  show ?thesis using h2 permission_evaluator_matches_literal_only [OF h1 h2] by simp
qed

text \<open>
  Claim C4 as the specification words it fails: on the policy whose only statement
  allows the full wildcard action \<^verbatim>\<open>*\<close> the evaluator answers \<^verbatim>\<open>False\<close>.
\<close>

theorem full_wildcard_action_is_not_matched:
  "policy_allows_assume_role wildcard_policy = Inr False"
  by (simp add: wildcard_policy_def policy_allows_assume_role_def)

text \<open>
  Claim C7 at a policy whose only statement allows \<^verbatim>\<open>sts:AssumeRoleWithSAML\<close>, written
  as a single string. No statement of it grants \<^verbatim>\<open>sts:AssumeRole\<close>, and the evaluator
  answers \<^verbatim>\<open>True\<close>: the \<^verbatim>\<open>in\<close> of line 110 is Python's substring test there.
\<close>

theorem saml_only_policy_is_taken_as_granting:
  "policy_allows_assume_role saml_policy = Inr True"
  by (simp add: saml_policy_def policy_allows_assume_role_def)

text \<open>
  Claim C9. When the \<^verbatim>\<open>Action\<close> of an Allow statement is a single string, the statement
  matches exactly when \<^verbatim>\<open>sts:AssumeRole\<close> occurs somewhere inside the string; and when it
  does, and no earlier statement raises, the evaluator answers \<^verbatim>\<open>True\<close> for the document.
\<close>

theorem string_action_is_substring_test:
  assumes "map_of doc ''Statement'' = Some (JList (earlier @ JObj statement # later))"
    and "policy_allows_assume_role_loop earlier = Inr b"
    and "map_of statement ''Effect'' = Some (JStr ''Allow'')"
    and "map_of statement ''Action'' = Some (JStr action)"
  shows "allow_statement (JObj statement) = Inr (\<exists>p q. action = p @ ''sts:AssumeRole'' @ q)
       \<and> ((\<exists>p q. action = p @ ''sts:AssumeRole'' @ q)
            \<longrightarrow> policy_allows_assume_role (JObj doc) = Inr True)"
proof -
  have one: "allow_statement (JObj statement) = Inr (\<exists>p q. action = p @ ''sts:AssumeRole'' @ q)"
    using assms(3,4) by (simp add: str_contains_iff)
  have "policy_allows_assume_role (JObj doc) = Inr True"
    if "\<exists>p q. action = p @ ''sts:AssumeRole'' @ q"
    using that assms(1) one policy_allows_loop_append [OF assms(2)]
    by (simp add: policy_allows_assume_role_def)
  with one show ?thesis by blast
qed

text \<open>
  The theorem of C9 at the action string \<^verbatim>\<open>xsts:AssumeRolex\<close>, behind a Deny statement.
\<close>

theorem string_action_is_substring_test_witness:
  "policy_allows_assume_role_loop [JObj [(''Effect'', JStr ''Deny''), (''Action'', JStr ''*'')]]
     = Inr False
   \<and> (\<exists>p q. ''xsts:AssumeRolex'' = p @ ''sts:AssumeRole'' @ q)
   \<and> allow_statement (JObj [(''Effect'', JStr ''Allow''), (''Action'', JStr ''xsts:AssumeRolex'')])
     = Inr True
   \<and> policy_allows_assume_role (JObj [(''Statement'', JList
        [JObj [(''Effect'', JStr ''Deny''), (''Action'', JStr ''*'')],
         JObj [(''Effect'', JStr ''Allow''), (''Action'', JStr ''xsts:AssumeRolex'')]])])
     = Inr True"
proof -
  let ?pre = "[JObj [(''Effect'', JStr ''Deny''), (''Action'', JStr ''*'')]]"
  let ?st = "[(''Effect'', JStr ''Allow''), (''Action'', JStr ''xsts:AssumeRolex'')]"
  let ?doc = "[(''Statement'', JList (?pre @ JObj ?st # []))]"
  have h1: "map_of ?doc ''Statement'' = Some (JList (?pre @ JObj ?st # []))" by simp
  have h2: "policy_allows_assume_role_loop ?pre = Inr False" by simp
  have h3: "map_of ?st ''Effect'' = Some (JStr ''Allow'')" by simp
  have h4: "map_of ?st ''Action'' = Some (JStr ''xsts:AssumeRolex'')" by simp
  have sub: "\<exists>p q. ''xsts:AssumeRolex'' = p @ ''sts:AssumeRole'' @ q"
    by (rule exI [of _ "''x''"], rule exI [of _ "''x''"]) simp
  show ?thesis using h2 sub string_action_is_substring_test [OF h1 h2 h3 h4] by simp
qed

section \<open>The trust policy evaluator\<close>

lemma trust_policy_without_statements_trusts_nobody:
  "map_of doc ''Statement'' = None \<or> map_of doc ''Statement'' = Some (JList [])
     \<Longrightarrow> get_role_permission (JObj doc) user_arn = Inr False"
  by (auto simp: get_role_permission_def)

lemma map_of_map_entry:
  "map_of (map (\<lambda>kv. (fst kv, if fst kv = k then f (snd kv) else snd kv)) kvs) k' =
     (if k' = k then map_option f (map_of kvs k') else map_of kvs k')"
  by (induction kvs) auto

lemma trust_statement_rewrite:
  assumes "\<And>v. py_in u (principal_list (f v)) = py_in u (principal_list v)"
  shows "trust_statement (map_entry ''Principal'' (map_entry ''AWS'' f) s) u = trust_statement s u"
proof (cases s)
  case (JObj kvs)
  show ?thesis
  proof (cases "map_of kvs ''Principal''")
    case None
    with JObj show ?thesis by (simp add: map_of_map_entry)
  next
    case (Some p)
    with JObj assms show ?thesis
      by (cases p) (auto simp: map_of_map_entry split: option.splits)
  qed
qed simp_all

lemma get_role_permission_loop_rewrite:
  assumes "\<And>v. py_in u (principal_list (f v)) = py_in u (principal_list v)"
  shows "get_role_permission_loop (map (map_entry ''Principal'' (map_entry ''AWS'' f)) ss) u
          = get_role_permission_loop ss u"
  by (induction ss) (auto simp: trust_statement_rewrite [OF assms] split: sum.splits)

lemma get_role_permission_rewrite:
  assumes "\<And>v. py_in u (principal_list (f v)) = py_in u (principal_list v)"
  shows "get_role_permission (rewrite_principal_aws f d) u = get_role_permission d u"
proof (cases d)
  case (JObj kvs)
  show ?thesis
  proof (cases "map_of kvs ''Statement''")
    case None
    with JObj show ?thesis
      by (simp add: get_role_permission_def rewrite_principal_aws_def map_of_map_entry)
  next
    case (Some v)
    with JObj show ?thesis
      by (cases v)
         (simp_all add: get_role_permission_def rewrite_principal_aws_def map_of_map_entry
            get_role_permission_loop_rewrite [OF assms])
  qed
qed (simp_all add: get_role_permission_def rewrite_principal_aws_def)

text \<open>
  Claim C6. The trust evaluator gives the same result, for every policy document and every
  identity, when each principal written as a single string under \<^verbatim>\<open>AWS\<close> is rewritten
  as the one-element list of that string; and for the identity \<open>u\<close> it gives the same
  result when each \<^verbatim>\<open>AWS\<close> value that is the single string \<open>u\<close> is rewritten as a list of
  several elements that contains \<open>u\<close>.
\<close>

theorem single_string_principal_same_as_list:
  "get_role_permission (rewrite_principal_aws principal_list d) u = get_role_permission d u
   \<and> get_role_permission
       (rewrite_principal_aws (\<lambda>v. if v = JStr u then JList (xs @ JStr u # ys) else v) d) u
     = get_role_permission d u"
proof
  have "\<And>v. py_in u (principal_list (principal_list v)) = py_in u (principal_list v)"
    subgoal for v by (cases v) simp_all
    done
  then show "get_role_permission (rewrite_principal_aws principal_list d) u
      = get_role_permission d u"
    by (rule get_role_permission_rewrite)
next
  have "\<And>v. py_in u (principal_list (if v = JStr u then JList (xs @ JStr u # ys) else v))
            = py_in u (principal_list v)"
    by simp
  then show "get_role_permission
       (rewrite_principal_aws (\<lambda>v. if v = JStr u then JList (xs @ JStr u # ys) else v) d) u
     = get_role_permission d u"
    by (rule get_role_permission_rewrite)
qed

text \<open>
  Claim C8 at the trust policy whose Allow statement has \<^verbatim>\<open>"Principal": "*"\<close>. The
  document parses and no statement of it names the identity under \<^verbatim>\<open>AWS\<close>; line 56 calls
  \<^verbatim>\<open>.get\<close> on the string and the evaluator raises \<^verbatim>\<open>AttributeError\<close>, for every identity.
\<close>

theorem bare_string_principal_raises:
  "get_role_permission anyone_trust_policy user_arn = Inl AttributeError"
  by (simp add: anyone_trust_policy_def get_role_permission_def)

lemma trust_statement_outside_aws:
  "principal_outside_aws s \<Longrightarrow> trust_statement s u = Inr False"
  by (cases s) (auto split: option.splits json.splits if_splits)

lemma get_role_permission_loop_outside_aws:
  "list_all principal_outside_aws ss \<Longrightarrow> get_role_permission_loop ss u = Inr False"
  by (induction ss) (simp_all add: trust_statement_outside_aws)

text \<open>
  Claim C10. On a trust policy whose statements are maps and whose Allow statements name
  their principals in a \<^verbatim>\<open>Principal\<close> map without the \<^verbatim>\<open>AWS\<close> key, the trust evaluator
  answers \<^verbatim>\<open>False\<close> for every identity, whatever is listed under the other keys.
\<close>

theorem only_aws_principals_are_inspected:
  assumes "map_of doc ''Statement'' = Some (JList statements)"
    and "list_all principal_outside_aws statements"
  shows "get_role_permission (JObj doc) user_arn = Inr False"
  using assms by (simp add: get_role_permission_def get_role_permission_loop_outside_aws)

text \<open>
  The theorem of C10 at a statement that names the user \<open>U\<close> under \<^verbatim>\<open>Federated\<close> and a
  service under \<^verbatim>\<open>Service\<close>, asked about \<open>U\<close>.
\<close>

theorem only_aws_principals_are_inspected_witness:
  "list_all principal_outside_aws [service_trust_statement]
   \<and> get_role_permission (JObj [(''Statement'', JList [service_trust_statement])])
        ''arn:aws:iam::111122223333:user/U'' = Inr False"
proof -
  have h1: "map_of [(''Statement'', JList [service_trust_statement])] ''Statement''
              = Some (JList [service_trust_statement])" by simp
  have h2: "list_all principal_outside_aws [service_trust_statement]"
    by (simp add: service_trust_statement_def)
  show ?thesis using h2 only_aws_principals_are_inspected [OF h1 h2] by simp
qed

section \<open>Discovery\<close>

lemma assume_calls_simps [simp]:
  "assume_calls [] = []"
  "assume_calls (xs @ ys) = assume_calls xs @ assume_calls ys"
  "assume_calls (ev # xs) = (if is_assume_call ev then ev # assume_calls xs else assume_calls xs)"
  by (simp_all add: assume_calls_def)

lemma in_assume_calls: "is_assume_call ev \<Longrightarrow> ev \<in> set out \<longleftrightarrow> ev \<in> set (assume_calls out)"
  by (simp add: assume_calls_def)

lemma policy_report_no_call: "policy_report policy rn = Inr line \<Longrightarrow> \<not> is_assume_call line"
  by (auto simp: policy_report_def split: sum.splits)

text \<open>
  A pass of \<^verbatim>\<open>check_policies\<close> that returns has looked at every listed policy: its flag
  says whether any of them grants, and it makes no assume-role call.
\<close>

lemma check_policies_page_sound:
  "check_policies_page s rn f ps st = Inr st' \<Longrightarrow>
     fst st' = (fst st \<or> list_ex (policy_grants s rn f) ps)
     \<and> assume_calls (snd st') = assume_calls (snd st)"
proof (induction ps arbitrary: st)
  case Nil
  then show ?case by simp
next
  case (Cons p ps)
  from Cons.prems obtain doc where doc: "f s rn p = Inr doc"
    by (auto split: sum.splits)
  from Cons.prems doc obtain b where b: "policy_allows_assume_role doc = Inr b"
    by (auto split: sum.splits)
  show ?case
  proof (cases b)
    case True
    with Cons.prems doc b obtain line where line: "policy_report p rn = Inr line"
      and rest: "check_policies_page s rn f ps (True, snd st @ [line]) = Inr st'"
      by (auto split: sum.splits)
    from Cons.IH [OF rest] policy_report_no_call [OF line] doc b True
    show ?thesis by (simp add: policy_grants_def)
  next
    case False
    with Cons.prems doc b have rest: "check_policies_page s rn f ps st = Inr st'"
      by simp
    from Cons.IH [OF rest] doc b False
    show ?thesis by (simp add: policy_grants_def)
  qed
qed

lemma check_policies_pages_sound:
  "check_policies_pages s rn f pages st = Inr st' \<Longrightarrow>
     fst st' = (fst st \<or> list_ex (policy_grants s rn f) (listed_policies (Inr pages)))
     \<and> assume_calls (snd st') = assume_calls (snd st)"
proof (induction pages arbitrary: st)
  case Nil
  then show ?case by (simp add: listed_policies_def)
next
  case (Cons page pages)
  from Cons.prems obtain ps where ps: "page_policies page = Inr ps"
    by (auto split: sum.splits)
  from Cons.prems ps obtain st1 where st1: "check_policies_page s rn f ps st = Inr st1"
    and rest: "check_policies_pages s rn f pages st1 = Inr st'"
    by (auto split: sum.splits)
  from check_policies_page_sound [OF st1] Cons.IH [OF rest] ps
  show ?case by (auto simp: listed_policies_def)
qed

lemma check_policies_sound:
  "check_policies s rn arn paginator f = Inr (b, out) \<Longrightarrow>
     b = list_ex (policy_grants s rn f) (listed_policies (paginator s rn))
     \<and> assume_calls out = []"
  by (auto simp: check_policies_def split: sum.splits dest!: check_policies_pages_sound)

lemma role_allows_chaining_sound:
  "role_allows_chaining s rn arn = Inr (b, out) \<Longrightarrow>
     b = some_policy_grants s rn \<and> assume_calls out = []"
  by (auto simp: role_allows_chaining_def some_policy_grants_def
      split: sum.splits if_splits dest!: check_policies_sound)

lemma assume_user_role_calls:
  "assume_user_role s rn arn mode rpn = Inr (c, hop) \<Longrightarrow>
     assume_calls hop = [AssumeRoleCall arn rn]"
  by (auto simp: assume_user_role_def split: sum.splits if_splits)

text \<open>
  A run of the loop that returns makes at most one assume-role call: for the first
  permissive role one of whose policies grants.
\<close>

lemma role_chaning_check_loop_calls:
  "role_chaning_check_loop s roles mode rpn found names = Inr (c, out) \<Longrightarrow>
     assume_calls out =
       (case find (\<lambda>r. some_policy_grants s (RoleName r)) roles of
          None \<Rightarrow> []
        | Some r \<Rightarrow> [AssumeRoleCall (RoleArn r) (RoleName r)])"
proof (induction roles arbitrary: c out)
  case Nil
  then show ?case by (auto split: if_splits)
next
  case (Cons r roles)
  from Cons.prems obtain b printed
    where allows: "role_allows_chaining s (RoleName r) (RoleArn r) = Inr (b, printed)"
    by (auto split: sum.splits)
  note snd = role_allows_chaining_sound [OF allows]
  show ?case
  proof (cases b)
    case True
    with Cons.prems allows obtain hop
      where hop: "assume_user_role s (RoleName r) (RoleArn r) mode rpn = Inr (c, hop)"
        and out: "out = printed @ hop @ (if truthy c then [AssumedCredentials (RoleName r)] else [])"
      by (auto split: sum.splits)
    from assume_user_role_calls [OF hop] snd True out
    show ?thesis by simp
  next
    case False
    with Cons.prems allows obtain later
      where rest: "role_chaning_check_loop s roles mode rpn found names = Inr (c, later)"
        and out: "out = printed @ later"
      by (auto split: sum.splits)
    from Cons.IH [OF rest] snd False out
    show ?thesis by simp
  qed
qed

lemma permisive_filter_sound:
  "permisive_filter roles u = Inr prs \<Longrightarrow>
     prs = map (\<lambda>r. \<lparr>RoleName = role_RoleName r, RoleArn = role_Arn r\<rparr>)
             (filter (\<lambda>r. trusts r u) roles)"
  by (induction roles arbitrary: prs) (auto simp: trusts_def split: sum.splits if_splits)

lemma find_map: "find P (map f xs) = map_option f (find (\<lambda>x. P (f x)) xs)"
  by (induction xs) auto

lemma find_filter: "find P (filter Q xs) = find (\<lambda>x. Q x \<and> P x) xs"
  by (induction xs) auto

lemma find_first:
  "list_all (\<lambda>x. \<not> P x) pre \<Longrightarrow> find P (pre @ x # post) = (if P x then Some x else find P post)"
  by (induction pre) auto

lemma main_discovery_calls:
  assumes "list_roles s = Inr pages"
    and "main_discovery s u rpn = Inr (c, out)"
  shows "assume_calls out =
       (case find (\<lambda>r. trusts r u \<and> some_policy_grants s (role_RoleName r)) (concat pages) of
          None \<Rightarrow> []
        | Some r \<Rightarrow> [AssumeRoleCall (role_Arn r) (role_RoleName r)])"
proof -
  from assms obtain prs where prs: "permisive_filter (concat pages) u = Inr prs"
    and loop: "role_chaning_check_loop s prs ''discovery'' rpn False [] = Inr (c, out)"
    by (auto simp: main_discovery_def get_permisive_roles_def role_chaning_check_def
        split: sum.splits)
  show ?thesis
    unfolding role_chaning_check_loop_calls [OF loop] permisive_filter_sound [OF prs]
    by (simp add: find_map find_filter split: option.splits)
qed

text \<open>
  The two conditions are combined as a conjunction wherever the loop gets to. Take a run
  of discovery that returns, over roles with distinct names, and a role that the loop
  reaches, that is, one before which no role is both trusted and granting. Assume-role is
  called for it if and only if its trust policy trusts the identity and at least one of
  its inline or managed policies grants the assume-role action. Both hypotheses are
  needed: a role behind the first trusted and granting one is never examined.
\<close>

lemma reached_role_called_iff_trusted_and_granting:
  assumes roles: "list_roles session = Inr pages"
    and here: "concat pages = earlier @ role # later"
    and names: "distinct (map role_RoleName (concat pages))"
    and earlier: "list_all (\<lambda>r. \<not> (trusts r user_arn
                      \<and> some_policy_grants session (role_RoleName r))) earlier"
    and run: "main_discovery session user_arn return_profile_name = Inr (result, events)"
  shows "AssumeRoleCall (role_Arn role) (role_RoleName role) \<in> set events
         \<longleftrightarrow> trusts role user_arn \<and> some_policy_grants session (role_RoleName role)"
proof -
  let ?P = "\<lambda>r. trusts r user_arn \<and> some_policy_grants session (role_RoleName r)"
  let ?call = "AssumeRoleCall (role_Arn role) (role_RoleName role)"
  have calls: "assume_calls events =
       (case (if ?P role then Some role else find ?P later) of
          None \<Rightarrow> []
        | Some r \<Rightarrow> [AssumeRoleCall (role_Arn r) (role_RoleName r)])"
    using main_discovery_calls [OF roles run] find_first [of ?P earlier role later, OF earlier]
    by (simp add: here)
  have mem: "?call \<in> set events \<longleftrightarrow> ?call \<in> set (assume_calls events)"
    by (rule in_assume_calls) simp
  show ?thesis
  proof (cases "?P role")
    case True
    with calls mem show ?thesis by simp
  next
    case False
    show ?thesis
    proof (cases "find ?P later")
      case None
      with False calls mem show ?thesis by simp
    next
      case (Some r)
      then have "r \<in> set later" by (auto simp: find_Some_iff)
      moreover from names here have "role_RoleName role \<notin> role_RoleName ` set later" by simp
      ultimately have "role_RoleName r \<noteq> role_RoleName role" by (metis imageI)
      with False Some calls mem show ?thesis by simp
    qed
  qed
qed

text \<open>
  The lemma in the example account, at role \<open>A\<close>: it is the first role, it trusts \<open>U\<close>,
  its inline policy grants, and the run calls assume-role for it.
\<close>

lemma reached_role_called_iff_trusted_and_granting_example:
  "list_roles (account False) = Inr [[role_A, role_B]]
   \<and> distinct (map role_RoleName (concat [[role_A, role_B]]))
   \<and> main_discovery (account False) user_U ''RoleChainProfile_abc123'' =
        Inr (Some (RoleCreds (creds_for ''A'')),
          [PolicyAllows ''Managed'' (JStr ''Chain'') ''A'',
           AssumeRoleCall ''arn:aws:iam::111122223333:role/A'' ''A'',
           AssumedCredentials ''A''])
   \<and> trusts role_A user_U \<and> some_policy_grants (account False) (role_RoleName role_A)"
proof -
  let ?events = "[PolicyAllows ''Managed'' (JStr ''Chain'') ''A'',
           AssumeRoleCall ''arn:aws:iam::111122223333:role/A'' ''A'',
           AssumedCredentials ''A'']"
  have h1: "list_roles (account False) = Inr [[role_A, role_B]]"
    by (simp add: account_def)
  have h2: "concat [[role_A, role_B]] = [] @ role_A # [role_B]" by simp
  have h3: "distinct (map role_RoleName (concat [[role_A, role_B]]))"
    by (simp add: role_A_def role_B_def)
  have h4: "list_all (\<lambda>r. \<not> (trusts r user_U
              \<and> some_policy_grants (account False) (role_RoleName r))) []"
    by simp
  have h5: "main_discovery (account False) user_U ''RoleChainProfile_abc123'' =
        Inr (Some (RoleCreds (creds_for ''A'')), ?events)"
    by (simp add: example_defs run_defs)
  have call: "AssumeRoleCall (role_Arn role_A) (role_RoleName role_A) \<in> set ?events"
    by (simp add: role_A_def)
  show ?thesis
    using h1 h3 h5 call reached_role_called_iff_trusted_and_granting [OF h1 h2 h3 h4 h5]
    by simp
qed

text \<open>
  Claim C5 at role \<open>B\<close> of the example account. Its trust policy trusts \<open>U\<close> and its inline
  policy grants the assume-role action, so both conditions hold; yet the run of discovery
  makes no assume-role call for \<open>B\<close> and prints nothing about it. The role is not
  classified at all: the \<^verbatim>\<open>return\<close> of line 79 has ended the loop at role \<open>A\<close>. The
  equivalence of the claim fails at \<open>B\<close>, from right to left.
\<close>

theorem trusted_granting_role_is_not_classified:
  "main_discovery (account False) user_U ''RoleChainProfile_abc123'' =
        Inr (Some (RoleCreds (creds_for ''A'')),
          [PolicyAllows ''Managed'' (JStr ''Chain'') ''A'',
           AssumeRoleCall ''arn:aws:iam::111122223333:role/A'' ''A'',
           AssumedCredentials ''A''])
   \<and> AssumeRoleCall (role_Arn role_B) (role_RoleName role_B)
       \<notin> set [PolicyAllows ''Managed'' (JStr ''Chain'') ''A'',
                AssumeRoleCall ''arn:aws:iam::111122223333:role/A'' ''A'',
                AssumedCredentials ''A'']
   \<and> get_role_permission (role_AssumeRolePolicyDocument role_B) user_U = Inr True
   \<and> policy_grants (account False) (role_RoleName role_B) get_role_policy (JStr ''Chain'')
   \<and> listed_policies (list_role_policies (account False) (role_RoleName role_B))
       = [JStr ''Chain'']"
  by (simp add: example_defs run_defs listed_policies_def policy_grants_def)

text \<open>
  Claim C1 in the example account, where both \<open>A\<close> and \<open>B\<close> trust \<open>U\<close> and have a granting
  policy. Discovery returns the credentials of \<open>A\<close> alone, and its only assume-role call
  is the one for \<open>A\<close>: the \<^verbatim>\<open>return\<close> of line 79 ends the loop at the first role whose
  policies grant, and \<open>B\<close> is never looked at.
\<close>

theorem discovery_stops_at_first_granting_role:
  "main_discovery (account False) user_U ''RoleChainProfile_abc123'' =
        Inr (Some (RoleCreds (creds_for ''A'')),
          [PolicyAllows ''Managed'' (JStr ''Chain'') ''A'',
           AssumeRoleCall ''arn:aws:iam::111122223333:role/A'' ''A'',
           AssumedCredentials ''A''])
   \<and> trusts role_B user_U \<and> some_policy_grants (account False) (role_RoleName role_B)"
  by (simp add: example_defs run_defs trusts_def some_policy_grants_def listed_policies_def
      policy_grants_def)

text \<open>
  Claim C2 in the example account when the provider denies the call for \<open>A\<close>. The denial
  is caught and printed, and discovery returns \<^verbatim>\<open>None\<close> at once through the same
  \<^verbatim>\<open>return\<close> of line 79: role \<open>B\<close>, trusted, granting and assumable, is not attempted.
\<close>

theorem denied_hop_ends_discovery:
  "main_discovery (account True) user_U ''RoleChainProfile_abc123'' =
        Inr (None,
          [PolicyAllows ''Managed'' (JStr ''Chain'') ''A'',
           AssumeRoleCall ''arn:aws:iam::111122223333:role/A'' ''A'',
           ErrorAssuming ''A'' (ClientError ''AccessDenied'')])
   \<and> trusts role_B user_U \<and> some_policy_grants (account True) (role_RoleName role_B)
   \<and> sts_assume_role (account True) (role_Arn role_B) (role_RoleName role_B)
       = Inr (creds_for ''B'')"
  by (simp add: example_defs run_defs trusts_def some_policy_grants_def listed_policies_def
      policy_grants_def)

text \<open>
  Claim C3 at role \<open>A\<close> of the example account, which has a granting inline policy and a
  granting managed policy. The test of lines 72 and 73 reports the inline policy only:
  the \<^verbatim>\<open>or\<close> does not run the pass over the managed policies once the inline pass has
  answered \<^verbatim>\<open>True\<close>.
\<close>

theorem granting_inline_policy_skips_managed_pass:
  "role_allows_chaining (account False) ''A'' ''arn:aws:iam::111122223333:role/A'' =
     Inr (True, [PolicyAllows ''Managed'' (JStr ''Chain'') ''A''])
   \<and> listed_policies (list_attached_role_policies (account False) ''A'') = [managed_ref]
   \<and> policy_grants (account False) ''A'' get_managed_policy managed_ref"
  by (simp add: example_defs run_defs listed_policies_def policy_grants_def)

end
